theory Spec2Isabelle
  imports Main "HOL-Library.Word"
begin

section \<open>Python values used by the array module\<close>

text \<open>
  The model follows \<^verbatim>\<open>src/zarrita/array.py\<close> and \<^verbatim>\<open>src/zarrita/common.py\<close>.
  Exceptions are values of \<open>error\<close>; a function that can raise returns
  \<open>error + 'a\<close> with \<open>Inl\<close> for the exception.
\<close>

datatype error =
  AssertionError | KeyError | TypeError | ValueError | ZeroDivisionError | InvalidSelection | CodecError

text \<open>Sequencing of two steps, the second of which runs only when the first did not raise.\<close>

definition and_then :: "error + 'a \<Rightarrow> ('a \<Rightarrow> error + 'b) \<Rightarrow> error + 'b" where
  "and_then r f = (case r of Inl e \<Rightarrow> Inl e | Inr x \<Rightarrow> f x)"


type_synonym bytes = "8 word list"

text \<open>Parsed JSON, as \<^verbatim>\<open>json.loads\<close> returns it and \<^verbatim>\<open>json.dumps\<close> takes it.\<close>

datatype json =
    JNull
  | JBool bool
  | JInt int
  | JStr string
  | JList "json list"
  | JObj "(string \<times> json) list"

subsection \<open>Decimal text of an integer and \<^verbatim>\<open>str.join\<close>\<close>

definition digit_char :: "nat \<Rightarrow> char" where
  "digit_char d = ''0123456789'' ! d"

function str_nat :: "nat \<Rightarrow> string" where
  "str_nat n = (if n < 10 then [digit_char n] else str_nat (n div 10) @ [digit_char (n mod 10)])"
  by pat_completeness auto
termination
  by (relation "measure id") auto

declare str_nat.simps [simp del]

text \<open>\<^verbatim>\<open>str(i)\<close> for a Python integer.\<close>

definition str_int :: "int \<Rightarrow> string" where
  "str_int i = (if i < 0 then CHR ''-'' # str_nat (nat (- i)) else str_nat (nat i))"

text \<open>\<^verbatim>\<open>separator.join(parts)\<close>.\<close>

fun join :: "string \<Rightarrow> string list \<Rightarrow> string" where
  "join separator [] = []"
| "join separator [x] = x"
| "join separator (x # y # ys) = x @ separator @ join separator (y # ys)"

section \<open>Metadata classes of \<^verbatim>\<open>array.py\<close>\<close>

datatype DataType =
  bool' | int8 | int16 | int32 | int64 | uint8 | uint16 | uint32 | uint64 | float32 | float64

text \<open>The enumeration's member names (equal to its values).\<close>

fun DataType_name :: "DataType \<Rightarrow> string" where
  "DataType_name bool' = ''bool''"
| "DataType_name int8 = ''int8''"
| "DataType_name int16 = ''int16''"
| "DataType_name int32 = ''int32''"
| "DataType_name int64 = ''int64''"
| "DataType_name uint8 = ''uint8''"
| "DataType_name uint16 = ''uint16''"
| "DataType_name uint32 = ''uint32''"
| "DataType_name uint64 = ''uint64''"
| "DataType_name float32 = ''float32''"
| "DataType_name float64 = ''float64''"

definition all_DataTypes :: "DataType list" where
  "all_DataTypes =
     [bool', int8, int16, int32, int64, uint8, uint16, uint32, uint64, float32, float64]"

text \<open>\<^verbatim>\<open>DataType[name]\<close>: lookup by member name, \<^verbatim>\<open>KeyError\<close> for any other name.\<close>

definition DataType_getitem :: "string \<Rightarrow> error + DataType" where
  "DataType_getitem n =
     (case find (\<lambda>d. DataType_name d = n) all_DataTypes of
        None \<Rightarrow> Inl KeyError
      | Some d \<Rightarrow> Inr d)"

definition dtype_to_data_type :: "(string \<times> string) list" where
  "dtype_to_data_type =
     [(''bool'', ''bool''),
      (''|i1'', ''int8''),
      (''<i2'', ''int16''),
      (''<i4'', ''int32''),
      (''<i8'', ''int64''),
      (''|u1'', ''uint8''),
      (''<u2'', ''uint16''),
      (''<u4'', ''uint32''),
      (''<u8'', ''uint64''),
      (''<f4'', ''float32''),
      (''<f8'', ''float64'')]"

text \<open>
  The two chunk key encodings. Each class has one field, \<^verbatim>\<open>configuration.separator\<close>,
  which is the constructor's argument; \<^verbatim>\<open>name\<close> is the constant of the class.
\<close>

datatype ChunkKeyEncodingMetadata =
    DefaultChunkKeyEncodingMetadata string
  | V2ChunkKeyEncodingMetadata string

fun chunk_key_encoding_name :: "ChunkKeyEncodingMetadata \<Rightarrow> string" where
  "chunk_key_encoding_name (DefaultChunkKeyEncodingMetadata separator) = ''default''"
| "chunk_key_encoding_name (V2ChunkKeyEncodingMetadata separator) = ''v2''"

fun separator :: "ChunkKeyEncodingMetadata \<Rightarrow> string" where
  "separator (DefaultChunkKeyEncodingMetadata s) = s"
| "separator (V2ChunkKeyEncodingMetadata s) = s"

text \<open>
  \<^verbatim>\<open>encode_chunk_key\<close> of both classes. In the default encoding the tuple
  \<^verbatim>\<open>("c",) + chunk_coords\<close> is mapped through \<^verbatim>\<open>str\<close>, which leaves \<^verbatim>\<open>"c"\<close> as it is.
\<close>

fun encode_chunk_key :: "ChunkKeyEncodingMetadata \<Rightarrow> int list \<Rightarrow> string" where
  "encode_chunk_key (DefaultChunkKeyEncodingMetadata sep) chunk_coords =
     join sep (''c'' # map str_int chunk_coords)"
| "encode_chunk_key (V2ChunkKeyEncodingMetadata sep) chunk_coords =
     (let chunk_identifier = join sep (map str_int chunk_coords)
      in if chunk_identifier = '''' then ''0'' else chunk_identifier)"


text \<open>
  Modelled from the spec: the codec metadata classes (\<^verbatim>\<open>zarrita.codecs\<close>,
  \<^verbatim>\<open>zarrita.metadata\<close>) are not in the sources. The tagged union has the five variants
  of the spec's data model. A leaf variant keeps its \<^verbatim>\<open>configuration\<close> object as parsed
  JSON; the sharding variant has the sub-chunk shape and the inner codec list.
\<close>

datatype CodecMetadata =
    BloscCodecMetadata json
  | EndianCodecMetadata json
  | TransposeCodecMetadata json
  | GzipCodecMetadata json
  | ShardingCodecMetadata "nat list" "CodecMetadata list"


datatype Order = C | F

text \<open>
  \<^verbatim>\<open>ArrayMetadata\<close>. The field \<open>chunk_grid\<close> holds
  \<^verbatim>\<open>chunk_grid.configuration.chunk_shape\<close>; the grid's name is the constant
  \<^verbatim>\<open>"regular"\<close>. Element values and the fill value are integers (see the section on
  arrays below).
\<close>

record ArrayMetadata =
  shape :: "nat list"
  data_type :: DataType
  chunk_grid :: "nat list"
  chunk_key_encoding :: ChunkKeyEncodingMetadata
  fill_value :: int
  attributes :: "(string \<times> json) list"
  codecs :: "CodecMetadata list"
  dimension_names :: "string list option"
  zarr_format :: int
  node_type :: string

record CoreArrayMetadata =
  shape :: "nat list"
  chunk_shape :: "nat list"
  data_type :: DataType
  fill_value :: int
  order :: Order

text \<open>
  \<^verbatim>\<open>Array\<close>. The store is a mutable object the array refers to; in the model its state
  is passed to every method and returned by those that write.
\<close>

record Array =
  metadata :: ArrayMetadata
  path :: string
  runtime_configuration :: Order

definition ZARR_JSON :: string where
  "ZARR_JSON = ''zarr.json''"

text \<open>\<^verbatim>\<open>product\<close> of \<^verbatim>\<open>common.py\<close>: \<^verbatim>\<open>functools.reduce(lambda x, y: x * y, tup, 1)\<close>.\<close>

definition product :: "nat list \<Rightarrow> nat" where
  "product tup = foldl (\<lambda>x y. x * y) 1 tup"

section \<open>Arrays in memory\<close>

text \<open>
  A numpy array is its dtype, its shape and its elements in row-major (C) order of the
  index. An element is an integer: the value of an integer or boolean element, and the
  bit pattern of a floating-point element (floating-point comparison and arithmetic are
  not modelled). Whether the buffer is laid out in C or Fortran order in memory is not
  part of the value.
\<close>

record ndarray =
  dtype :: DataType
  shape :: "nat list"
  data :: "int list"

text \<open>All index vectors of a shape, last axis fastest.\<close>

definition indices :: "nat list \<Rightarrow> nat list list" where
  "indices shp = product_lists (map (\<lambda>n. [0..<n]) shp)"

text \<open>Position of an index vector in row-major order.\<close>

fun ravel :: "nat list \<Rightarrow> nat list \<Rightarrow> nat" where
  "ravel (n # ns) (i # is) = i * product ns + ravel ns is"
| "ravel ns is = 0"

definition at :: "ndarray \<Rightarrow> nat list \<Rightarrow> int" where
  "at a idx = data a ! ravel (ndarray.shape a) idx"

definition tabulate :: "DataType \<Rightarrow> nat list \<Rightarrow> (nat list \<Rightarrow> int) \<Rightarrow> ndarray" where
  "tabulate dt shp f = \<lparr>dtype = dt, shape = shp, data = map f (indices shp)\<rparr>"

text \<open>\<^verbatim>\<open>np.zeros(shape, dtype)\<close>, and \<^verbatim>\<open>np.empty(shape, dtype)\<close> followed by \<^verbatim>\<open>fill(v)\<close>.\<close>

definition np_zeros :: "nat list \<Rightarrow> DataType \<Rightarrow> ndarray" where
  "np_zeros shp dt = tabulate dt shp (\<lambda>idx. 0)"

definition np_full :: "nat list \<Rightarrow> DataType \<Rightarrow> int \<Rightarrow> ndarray" where
  "np_full shp dt v = tabulate dt shp (\<lambda>idx. v)"

text \<open>
  A selection inside an array is one slice \<open>start:stop\<close> (step 1) per axis, as the
  indexer yields it. The operations below are numpy's basic slicing for such selections
  that lie within the array's bounds; for the assignments the right-hand side has the
  selection's shape.
\<close>

type_synonym SliceSelection = "(nat \<times> nat) list"

definition sel_shape :: "SliceSelection \<Rightarrow> nat list" where
  "sel_shape sel = map (\<lambda>(b, e). e - b) sel"

definition in_sel :: "SliceSelection \<Rightarrow> nat list \<Rightarrow> bool" where
  "in_sel sel idx = list_all2 (\<lambda>(b, e) i. b \<le> i \<and> i < e) sel idx"

definition sel_to_array :: "SliceSelection \<Rightarrow> nat list \<Rightarrow> nat list" where
  "sel_to_array sel idx = map2 (\<lambda>(b, e) i. b + i) sel idx"

definition array_to_sel :: "SliceSelection \<Rightarrow> nat list \<Rightarrow> nat list" where
  "array_to_sel sel idx = map2 (\<lambda>(b, e) i. i - b) sel idx"

text \<open>\<^verbatim>\<open>a[sel]\<close>.\<close>

definition getitem :: "ndarray \<Rightarrow> SliceSelection \<Rightarrow> ndarray" where
  "getitem a sel = tabulate (dtype a) (sel_shape sel) (\<lambda>idx. at a (sel_to_array sel idx))"

text \<open>\<^verbatim>\<open>a[sel] = b\<close> for an array \<open>b\<close>, and \<^verbatim>\<open>a[sel] = v\<close> for a scalar \<open>v\<close>.\<close>

definition setitem :: "ndarray \<Rightarrow> SliceSelection \<Rightarrow> ndarray \<Rightarrow> ndarray" where
  "setitem a sel b =
     tabulate (dtype a) (ndarray.shape a)
       (\<lambda>idx. if in_sel sel idx then at b (array_to_sel sel idx) else at a idx)"

definition setitem_scalar :: "ndarray \<Rightarrow> SliceSelection \<Rightarrow> int \<Rightarrow> ndarray" where
  "setitem_scalar a sel v =
     tabulate (dtype a) (ndarray.shape a) (\<lambda>idx. if in_sel sel idx then v else at a idx)"


subsection \<open>Bytes of an array\<close>

fun itemsize :: "DataType \<Rightarrow> nat" where
  "itemsize bool' = 1"
| "itemsize int8 = 1"
| "itemsize int16 = 2"
| "itemsize int32 = 4"
| "itemsize int64 = 8"
| "itemsize uint8 = 1"
| "itemsize uint16 = 2"
| "itemsize uint32 = 4"
| "itemsize uint64 = 8"
| "itemsize float32 = 4"
| "itemsize float64 = 8"

fun is_signed :: "DataType \<Rightarrow> bool" where
  "is_signed int8 = True"
| "is_signed int16 = True"
| "is_signed int32 = True"
| "is_signed int64 = True"
| "is_signed dt = False"

text \<open>The values an element of a dtype can hold.\<close>

definition in_range :: "DataType \<Rightarrow> int \<Rightarrow> bool" where
  "in_range dt v =
     (if is_signed dt
      then - (2 ^ (8 * itemsize dt - 1)) \<le> v \<and> v < 2 ^ (8 * itemsize dt - 1)
      else 0 \<le> v \<and> v < 2 ^ (8 * itemsize dt))"

text \<open>Little-endian bytes of an element of a given width (two's complement), and back.\<close>

definition int_to_bytes :: "nat \<Rightarrow> int \<Rightarrow> bytes" where
  "int_to_bytes w v = map (\<lambda>i. word_of_int (v div 256 ^ i)) [0..<w]"

definition le_value :: "bytes \<Rightarrow> int" where
  "le_value bs = foldr (\<lambda>b acc. uint b + 256 * acc) bs 0"

definition bytes_to_int :: "DataType \<Rightarrow> bytes \<Rightarrow> int" where
  "bytes_to_int dt bs =
     (let u = le_value bs
      in if is_signed dt \<and> 2 ^ (8 * itemsize dt - 1) \<le> u then u - 2 ^ (8 * itemsize dt) else u)"

definition groups :: "nat \<Rightarrow> 'a list \<Rightarrow> 'a list list" where
  "groups n xs = map (\<lambda>i. take n (drop (i * n) xs)) [0..<length xs div n]"

text \<open>\<^verbatim>\<open>a.tobytes()\<close>, \<^verbatim>\<open>np.frombuffer(b, dtype="uint8")\<close>, \<^verbatim>\<open>a.view(dt)\<close>.\<close>

definition np_tobytes :: "ndarray \<Rightarrow> bytes" where
  "np_tobytes a = concat (map (int_to_bytes (itemsize (dtype a))) (data a))"

definition np_frombuffer :: "bytes \<Rightarrow> ndarray" where
  "np_frombuffer b = \<lparr>dtype = uint8, shape = [length b], data = map uint b\<rparr>"

definition np_view :: "DataType \<Rightarrow> ndarray \<Rightarrow> error + ndarray" where
  "np_view dt a =
     (let s1 = itemsize (dtype a);
          s2 = itemsize dt;
          elems = map (bytes_to_int dt) (groups s2 (np_tobytes a))
      in if ndarray.shape a = []
         then (if s1 = s2 then Inr \<lparr>dtype = dt, shape = [], data = elems\<rparr> else Inl ValueError)
         else if (last (ndarray.shape a) * s1) mod s2 \<noteq> 0 then Inl ValueError
         else Inr \<lparr>dtype = dt,
                   shape = butlast (ndarray.shape a) @ [last (ndarray.shape a) * s1 div s2],
                   data = elems\<rparr>)"

text \<open>
  \<^verbatim>\<open>a.reshape(shp, order=ord)\<close>: with \<open>C\<close> the row-major element sequence is kept; with
  \<open>F\<close> the elements are read and placed with the first axis fastest.
\<close>

definition flat_F :: "ndarray \<Rightarrow> int list" where
  "flat_F a = map (\<lambda>idx. at a (rev idx)) (indices (rev (ndarray.shape a)))"

definition np_reshape :: "nat list \<Rightarrow> Order \<Rightarrow> ndarray \<Rightarrow> error + ndarray" where
  "np_reshape shp ord a =
     (if product shp \<noteq> product (ndarray.shape a) then Inl ValueError
      else case ord of
        C \<Rightarrow> Inr (a\<lparr>ndarray.shape := shp\<rparr>)
      | F \<Rightarrow> Inr (tabulate (dtype a) shp (\<lambda>idx. flat_F a ! ravel (rev shp) (rev idx))))"





section \<open>Store and value handles\<close>

text \<open>
  Modelled from the spec: the store (\<^verbatim>\<open>zarrita.store\<close>) and the value handles
  (\<^verbatim>\<open>zarrita.value_handle\<close>) are not in the sources. The store is a key/value map from
  keys to bytes; \<^verbatim>\<open>get\<close> of an absent key is none, \<^verbatim>\<open>set\<close> creates or replaces,
  \<^verbatim>\<open>delete\<close> is idempotent. A value handle is one of the four variants of the spec;
  a file handle names a key of the store and reads it when asked for its bytes or array.
\<close>

type_synonym Store = "string \<Rightarrow> bytes option"

datatype ValueHandle =
    NoneValueHandle
  | BufferValueHandle bytes
  | ArrayValueHandle ndarray
  | FileValueHandle string


fun toarray :: "Store \<Rightarrow> ValueHandle \<Rightarrow> ndarray option" where
  "toarray st NoneValueHandle = None"
| "toarray st (BufferValueHandle b) = Some (np_frombuffer b)"
| "toarray st (ArrayValueHandle a) = Some a"
| "toarray st (FileValueHandle key) = map_option np_frombuffer (st key)"

text \<open>
  What a codec that is handed a file handle can read from it: the bytes under the
  handle's key, or nothing when the key is absent.
\<close>

fun load :: "Store \<Rightarrow> ValueHandle \<Rightarrow> ValueHandle" where
  "load st (FileValueHandle key) =
     (case st key of None \<Rightarrow> NoneValueHandle | Some b \<Rightarrow> BufferValueHandle b)"
| "load st v = v"


section \<open>Codecs\<close>

text \<open>
  The codec classes' methods (\<^verbatim>\<open>zarrita.codecs\<close>, \<^verbatim>\<open>zarrita.sharding\<close>) are not in
  the sources. They are parameters of the model: a record of the four methods the array
  calls, each taking the codec's metadata first. A method that is handed a file handle
  receives what \<open>load\<close> reads from it.
\<close>

record CodecImplementations =
  encode :: "CodecMetadata \<Rightarrow> ValueHandle \<Rightarrow> CoreArrayMetadata \<Rightarrow> error + ValueHandle"
  decode :: "CodecMetadata \<Rightarrow> ValueHandle \<Rightarrow> CoreArrayMetadata \<Rightarrow> error + ValueHandle"
  decode_partial ::
    "CodecMetadata \<Rightarrow> ValueHandle \<Rightarrow> SliceSelection \<Rightarrow> CoreArrayMetadata \<Rightarrow> error + ValueHandle"
  encode_partial ::
    "CodecMetadata \<Rightarrow> ValueHandle \<Rightarrow> ndarray \<Rightarrow> SliceSelection \<Rightarrow> CoreArrayMetadata
       \<Rightarrow> error + ValueHandle"

text \<open>
  The loop \<^verbatim>\<open>for codec in cs: value_handle = await step(codec, value_handle)\<close> that
  \<^verbatim>\<open>_encode_chunk\<close> runs over \<^verbatim>\<open>codecs\<close> and \<^verbatim>\<open>_decode_chunk\<close> over
  \<^verbatim>\<open>codecs[::-1]\<close>.
\<close>

fun for_each_codec ::
  "(CodecMetadata \<Rightarrow> ValueHandle \<Rightarrow> error + ValueHandle) \<Rightarrow> CodecMetadata list \<Rightarrow> ValueHandle
     \<Rightarrow> error + ValueHandle" where
  "for_each_codec step [] value_handle = Inr value_handle"
| "for_each_codec step (codec # cs) value_handle =
     (case step codec value_handle of
        Inl e \<Rightarrow> Inl e
      | Inr value_handle' \<Rightarrow> for_each_codec step cs value_handle')"

section \<open>Indexer\<close>

text \<open>
  Modelled from the spec: \<^verbatim>\<open>BasicIndexer\<close> (\<^verbatim>\<open>zarrita.indexing\<close>) and
  \<^verbatim>\<open>is_total_slice\<close> are not in the sources. A selection is a sequence of Python
  slices, at most one per axis; missing axes and missing bounds are full. A step other
  than 1, a bound outside the axis and more slices than axes are invalid selections.
  The chunks are the Cartesian product of the per-axis chunk ranges
  \<open>[start div C, ceil (stop / C))\<close>, each with its chunk selection and its output
  selection.
\<close>

record pyslice =
  start :: "int option"
  stop :: "int option"
  step :: "int option"











section \<open>The array: reading and writing\<close>

definition core_metadata :: "Array \<Rightarrow> CoreArrayMetadata" where
  "core_metadata self =
     \<lparr>CoreArrayMetadata.shape = ArrayMetadata.shape (metadata self),
      chunk_shape = chunk_grid (metadata self),
      data_type = ArrayMetadata.data_type (metadata self),
      fill_value = ArrayMetadata.fill_value (metadata self),
      order = runtime_configuration self\<rparr>"

text \<open>The chunk key \<^verbatim>\<open>f"{self.path}/{chunk_key_encoding.encode_chunk_key(chunk_coords)}"\<close>.\<close>

definition chunk_key_of :: "Array \<Rightarrow> nat list \<Rightarrow> string" where
  "chunk_key_of self chunk_coords =
     path self @ ''/'' @ encode_chunk_key (chunk_key_encoding (metadata self)) (map int chunk_coords)"


text \<open>
  \<^verbatim>\<open>_decode_chunk\<close>. Its codec loop (``apply codecs in reverse order'') is
  \<open>decode_codecs\<close>; the handle the first decoding step receives is the chunk's file
  handle.
\<close>

definition decode_codecs ::
  "CodecImplementations \<Rightarrow> Array \<Rightarrow> ValueHandle \<Rightarrow> error + ValueHandle" where
  "decode_codecs E self value_handle =
     for_each_codec (\<lambda>codec_metadata v. decode E codec_metadata v (core_metadata self))
       (rev (codecs (metadata self))) value_handle"

definition decode_chunk ::
  "CodecImplementations \<Rightarrow> Array \<Rightarrow> Store \<Rightarrow> ValueHandle \<Rightarrow> SliceSelection \<Rightarrow> error + ndarray option" where
  "decode_chunk E self st value_handle selection =
     (if value_handle = NoneValueHandle then Inr None
      else
        case decode_codecs E self (load st value_handle) of
          Inl e \<Rightarrow> Inl e
        | Inr decoded \<Rightarrow>
            (case toarray st decoded of
               None \<Rightarrow> Inr None
             | Some chunk_array \<Rightarrow>
                 (case (if DataType_name (dtype chunk_array)
                           \<noteq> DataType_name (ArrayMetadata.data_type (metadata self))
                        then np_view (ArrayMetadata.data_type (metadata self)) chunk_array
                        else Inr chunk_array) of
                    Inl e \<Rightarrow> Inl e
                  | Inr viewed \<Rightarrow>
                      (case (if ndarray.shape viewed \<noteq> chunk_grid (metadata self)
                             then np_reshape (chunk_grid (metadata self))
                                    (runtime_configuration self) viewed
                             else Inr viewed) of
                         Inl e \<Rightarrow> Inl e
                       | Inr reshaped \<Rightarrow> Inr (Some reshaped)))))"












section \<open>The array: creating and opening\<close>

text \<open>
  \<^verbatim>\<open>asdict(self.metadata)\<close> with the \<^verbatim>\<open>convert\<close> hook of \<^verbatim>\<open>_save_metadata\<close>
  applied (a data type is written as its name), as the JSON value handed to
  \<^verbatim>\<open>json.dumps\<close>.
\<close>

fun codec_asdict :: "CodecMetadata \<Rightarrow> json" where
  "codec_asdict (BloscCodecMetadata c) = JObj [(''configuration'', c), (''name'', JStr ''blosc'')]"
| "codec_asdict (EndianCodecMetadata c) = JObj [(''configuration'', c), (''name'', JStr ''endian'')]"
| "codec_asdict (TransposeCodecMetadata c) =
     JObj [(''configuration'', c), (''name'', JStr ''transpose'')]"
| "codec_asdict (GzipCodecMetadata c) = JObj [(''configuration'', c), (''name'', JStr ''gzip'')]"
| "codec_asdict (ShardingCodecMetadata cs inner) =
     JObj [(''configuration'',
            JObj [(''chunk_shape'', JList (map (\<lambda>n. JInt (int n)) cs)),
                  (''codecs'', JList (map codec_asdict inner))]),
           (''name'', JStr ''sharding_indexed'')]"

definition asdict :: "ArrayMetadata \<Rightarrow> json" where
  "asdict md =
     JObj [(''shape'', JList (map (\<lambda>n. JInt (int n)) (ArrayMetadata.shape md))),
           (''data_type'', JStr (DataType_name (ArrayMetadata.data_type md))),
           (''chunk_grid'',
            JObj [(''configuration'',
                   JObj [(''chunk_shape'', JList (map (\<lambda>n. JInt (int n)) (chunk_grid md)))]),
                  (''name'', JStr ''regular'')]),
           (''chunk_key_encoding'',
            JObj [(''configuration'', JObj [(''separator'', JStr (separator (chunk_key_encoding md)))]),
                  (''name'', JStr (chunk_key_encoding_name (chunk_key_encoding md)))]),
           (''fill_value'', JInt (ArrayMetadata.fill_value md)),
           (''attributes'', JObj (attributes md)),
           (''codecs'', JList (map codec_asdict (codecs md))),
           (''dimension_names'',
            (case dimension_names md of None \<Rightarrow> JNull | Some ns \<Rightarrow> JList (map JStr ns))),
           (''zarr_format'', JInt (zarr_format md)),
           (''node_type'', JStr (node_type md))]"

text \<open>
  \<^verbatim>\<open>_save_metadata\<close>. The serialiser \<^verbatim>\<open>json.dumps(...).encode()\<close> is a parameter.
\<close>

definition save_metadata :: "(json \<Rightarrow> bytes) \<Rightarrow> Array \<Rightarrow> Store \<Rightarrow> Store" where
  "save_metadata json_dumps self st =
     st(path self @ ''/'' @ ZARR_JSON \<mapsto> json_dumps (asdict (metadata self)))"

text \<open>
  The \<^verbatim>\<open>dtype\<close> argument of \<^verbatim>\<open>create\<close>: a string, or a numpy dtype (given by its
  \<^verbatim>\<open>.str\<close>).
\<close>

datatype dtype_arg = DtypeName string | NpDtype string

definition create_async ::
  "(json \<Rightarrow> bytes) \<Rightarrow> Store \<Rightarrow> string \<Rightarrow> nat list \<Rightarrow> dtype_arg \<Rightarrow> nat list \<Rightarrow> int option
     \<Rightarrow> string \<times> string \<Rightarrow> CodecMetadata list option \<Rightarrow> string list option
     \<Rightarrow> (string \<times> json) list option \<Rightarrow> Order option \<Rightarrow> error + (Array \<times> Store)" where
  "create_async json_dumps st pth shp dtype_given chunk_shp fill_val cke cdcs dim_names attrs
     runtime_config =
     (case (case dtype_given of
              DtypeName n \<Rightarrow> DataType_getitem n
            | NpDtype s \<Rightarrow>
                (case map_of dtype_to_data_type s of
                   None \<Rightarrow> Inl KeyError
                 | Some n \<Rightarrow> DataType_getitem n)) of
        Inl e \<Rightarrow> Inl e
      | Inr dt \<Rightarrow>
          let md =
                \<lparr>ArrayMetadata.shape = shp,
                 data_type = dt,
                 chunk_grid = chunk_shp,
                 chunk_key_encoding =
                   (if fst cke = ''v2'' then V2ChunkKeyEncodingMetadata (snd cke)
                    else DefaultChunkKeyEncodingMetadata (snd cke)),
                 fill_value = (case fill_val of None \<Rightarrow> 0 | Some v \<Rightarrow> v),
                 attributes = (case attrs of None \<Rightarrow> [] | Some a \<Rightarrow> a),
                 codecs = (case cdcs of None \<Rightarrow> [] | Some cs \<Rightarrow> cs),
                 dimension_names =
                   (case dim_names of None \<Rightarrow> None | Some ns \<Rightarrow> if ns = [] then None else Some ns),
                 zarr_format = 3,
                 node_type = ''array''\<rparr>;
              array =
                \<lparr>metadata = md,
                 path = pth,
                 runtime_configuration = (case runtime_config of None \<Rightarrow> C | Some r \<Rightarrow> r)\<rparr>
          in Inr (array, save_metadata json_dumps array st))"

text \<open>\<^verbatim>\<open>Array.create\<close> runs \<^verbatim>\<open>create_async\<close> with the same arguments to completion.\<close>

definition Array_create ::
  "(json \<Rightarrow> bytes) \<Rightarrow> Store \<Rightarrow> string \<Rightarrow> nat list \<Rightarrow> dtype_arg \<Rightarrow> nat list \<Rightarrow> int option
     \<Rightarrow> string \<times> string \<Rightarrow> CodecMetadata list option \<Rightarrow> string list option
     \<Rightarrow> (string \<times> json) list option \<Rightarrow> Order option \<Rightarrow> error + (Array \<times> Store)" where
  "Array_create json_dumps st pth shp dtype_given chunk_shp fill_val cke cdcs dim_names attrs
     runtime_config =
     create_async json_dumps st pth shp dtype_given chunk_shp fill_val cke cdcs dim_names attrs
       runtime_config"

subsection \<open>Structuring the metadata document\<close>

text \<open>
  \<^verbatim>\<open>d[key]\<close> on a parsed JSON value: \<^verbatim>\<open>KeyError\<close> when a dictionary lacks the key,
  \<^verbatim>\<open>TypeError\<close> when the value is not a dictionary.
\<close>

fun dict_get :: "json \<Rightarrow> string \<Rightarrow> error + json" where
  "dict_get (JObj kvs) k = (case map_of kvs k of None \<Rightarrow> Inl KeyError | Some v \<Rightarrow> Inr v)"
| "dict_get d k = Inl TypeError"
























section \<open>Morton order\<close>




section \<open>Names used in the statements\<close>



text \<open>An array whose metadata lists other codecs.\<close>

definition with_codecs :: "Array \<Rightarrow> CodecMetadata list \<Rightarrow> Array" where
  "with_codecs self cs = self\<lparr>metadata := (metadata self)\<lparr>codecs := cs\<rparr>\<rparr>"



text \<open>
  An array of a given dtype and shape: it has as many elements as the shape says, each
  one a value the dtype can hold.
\<close>

definition valid_array :: "DataType \<Rightarrow> nat list \<Rightarrow> ndarray \<Rightarrow> bool" where
  "valid_array dt shp a =
     (dtype a = dt \<and> ndarray.shape a = shp \<and> length (data a) = product shp
      \<and> list_all (in_range dt) (data a))"


section \<open>What the statements assume of the array, the codecs and the store\<close>

text \<open>A chunk that holds the fill value everywhere.\<close>

definition fill_chunk :: "Array \<Rightarrow> ndarray" where
  "fill_chunk self =
     np_full (chunk_grid (metadata self)) (ArrayMetadata.data_type (metadata self))
       (ArrayMetadata.fill_value (metadata self))"



text \<open>What \<^verbatim>\<open>_decode_chunk\<close> returns for a chunk whose key holds \<open>stored\<close>.\<close>

definition decode_stored :: "CodecImplementations \<Rightarrow> Array \<Rightarrow> bytes option \<Rightarrow> error + ndarray option" where
  "decode_stored E self stored = decode_chunk E self (\<lambda>key. stored) (FileValueHandle []) []"

text \<open>
  The contents of a chunk as stored: the fill value everywhere when the key is absent,
  and the array the stored bytes decode to otherwise.
\<close>

definition stored_content :: "CodecImplementations \<Rightarrow> Array \<Rightarrow> bytes option \<Rightarrow> ndarray \<Rightarrow> bool" where
  "stored_content E self stored a =
     (case stored of
        None \<Rightarrow> a = fill_chunk self
      | Some b \<Rightarrow>
          decode_stored E self (Some b) = Inr (Some a)
          \<and> valid_array (ArrayMetadata.data_type (metadata self)) (chunk_grid (metadata self)) a)"





text \<open>Every chunk key of the array that is present holds bytes that decode to a chunk.\<close>

definition store_ok :: "CodecImplementations \<Rightarrow> Array \<Rightarrow> Store \<Rightarrow> bool" where
  "store_ok E self st = (\<forall>k. \<exists>a. stored_content E self (st (chunk_key_of self k)) a)"



section \<open>An example array\<close>







section \<open>Chunk keys\<close>

lemma str_nat_nonempty: "str_nat n \<noteq> []"
  by (induction n rule: str_nat.induct) (subst str_nat.simps, simp)

lemma str_int_nonempty: "str_int i \<noteq> []"
  by (simp add: str_int_def str_nat_nonempty)

text \<open>
  Joining with a separator writes the first part and then every further part after a
  separator.
\<close>

lemma join_Cons: "join sep (x # xs) = x @ concat (map (\<lambda>y. sep @ y) xs)"
  by (induction xs arbitrary: x) simp_all

lemma join_coords_nonempty: "join sep (map str_int (k # ks)) \<noteq> []"
  by (simp add: join_Cons str_int_nonempty)

text \<open>
  Claim C5. For every coordinate tuple and separator, the default encoding gives
  \<^verbatim>\<open>"c"\<close> followed by the separator and the separator-joined coordinates, and exactly
  \<^verbatim>\<open>"c"\<close> for the empty tuple; the v2 encoding gives the separator-joined coordinates,
  and exactly \<^verbatim>\<open>"0"\<close> for the empty tuple.
\<close>

theorem encode_chunk_key_format:
  "encode_chunk_key (DefaultChunkKeyEncodingMetadata sep) [] = ''c''
   \<and> encode_chunk_key (DefaultChunkKeyEncodingMetadata sep) (k # ks)
       = ''c'' @ sep @ join sep (map str_int (k # ks))
   \<and> encode_chunk_key (V2ChunkKeyEncodingMetadata sep) [] = ''0''
   \<and> encode_chunk_key (V2ChunkKeyEncodingMetadata sep) (k # ks) = join sep (map str_int (k # ks))
   \<and> join sep (map str_int (k # ks)) = str_int k @ concat (map (\<lambda>i. sep @ str_int i) ks)"
proof -
  have v2: "encode_chunk_key (V2ChunkKeyEncodingMetadata sep) (k # ks)
              = join sep (map str_int (k # ks))"
    using join_coords_nonempty [of sep k ks] by (simp add: Let_def)
  have j: "join sep (map str_int (k # ks)) = str_int k @ concat (map (\<lambda>i. sep @ str_int i) ks)"
    by (simp add: join_Cons comp_def)
  show ?thesis
    using v2 j by simp
qed

lemma encode_chunk_key_examples:
  "encode_chunk_key (DefaultChunkKeyEncodingMetadata ''/'') [0, 1, 2] = ''c/0/1/2''"
  "encode_chunk_key (V2ChunkKeyEncodingMetadata ''.'') [0, 1, 2] = ''0.1.2''"
  by (simp_all add: str_int_def str_nat.simps digit_char_def Let_def)

section \<open>Morton order of the sub-chunk grid\<close>


section \<open>Creating an array\<close>

text \<open>
  Claim C10. Every call of \<^verbatim>\<open>Array.create\<close> with \<^verbatim>\<open>fill_value\<close> omitted or
  \<^verbatim>\<open>None\<close> that returns an array has built metadata with fill value 0, whatever the
  data type, and has stored that metadata, with \<^verbatim>\<open>"fill_value": 0\<close>, under
  \<^verbatim>\<open>zarr.json\<close>.
\<close>

theorem create_default_fill_value:
  assumes "Array_create json_dumps st pth shp dtype_given chunk_shp None cke cdcs dim_names attrs
             runtime_config = Inr (array, st')"
  shows "ArrayMetadata.fill_value (metadata array) = 0
         \<and> st' (pth @ ''/zarr.json'') = Some (json_dumps (asdict (metadata array)))
         \<and> dict_get (asdict (metadata array)) ''fill_value'' = Inr (JInt 0)"
  using assms
  by (auto simp: Array_create_def create_async_def save_metadata_def ZARR_JSON_def asdict_def
      Let_def split: sum.splits)

text \<open>The call returns for each of the eleven data type names.\<close>

lemma create_returns_for_every_data_type:
  "\<exists>array st'.
     Array_create json_dumps st pth shp (DtypeName (DataType_name dt)) chunk_shp None cke cdcs
       dim_names attrs runtime_config = Inr (array, st')
     \<and> ArrayMetadata.data_type (metadata array) = dt"
  by (cases dt) (simp_all add: Array_create_def create_async_def DataType_getitem_def
      all_DataTypes_def Let_def)

theorem create_default_fill_value_witness:
  "Array_create (\<lambda>j. []) Map.empty ''p'' [4] (DtypeName ''bool'') [2] None (''default'', ''/'')
     None None None None
     = Inr (\<lparr>metadata =
               \<lparr>ArrayMetadata.shape = [4], data_type = bool', chunk_grid = [2],
                chunk_key_encoding = DefaultChunkKeyEncodingMetadata ''/'', fill_value = 0,
                attributes = [], codecs = [], dimension_names = None, zarr_format = 3,
                node_type = ''array''\<rparr>,
             path = ''p'', runtime_configuration = C\<rparr>,
            [''p/zarr.json'' \<mapsto> []])
   \<and> ArrayMetadata.fill_value
        \<lparr>ArrayMetadata.shape = [4], data_type = bool', chunk_grid = [2],
         chunk_key_encoding = DefaultChunkKeyEncodingMetadata ''/'', fill_value = 0,
         attributes = [], codecs = [], dimension_names = None, zarr_format = 3,
         node_type = ''array''\<rparr> = 0"
proof -
  have h: "Array_create (\<lambda>j. []) Map.empty ''p'' [4] (DtypeName ''bool'') [2] None
             (''default'', ''/'') None None None None
           = Inr (\<lparr>metadata =
                     \<lparr>ArrayMetadata.shape = [4], data_type = bool', chunk_grid = [2],
                      chunk_key_encoding = DefaultChunkKeyEncodingMetadata ''/'', fill_value = 0,
                      attributes = [], codecs = [], dimension_names = None, zarr_format = 3,
                      node_type = ''array''\<rparr>,
                   path = ''p'', runtime_configuration = C\<rparr>,
                  [''p/zarr.json'' \<mapsto> []])"
    by (simp add: Array_create_def create_async_def DataType_getitem_def all_DataTypes_def
        save_metadata_def ZARR_JSON_def Let_def)
  from create_default_fill_value [OF h] h show ?thesis
    by simp
qed

section \<open>Structuring the metadata on open\<close>











section \<open>Order of the codecs\<close>

lemma for_each_codec_append:
  "for_each_codec f (xs @ ys) v = and_then (for_each_codec f xs v) (for_each_codec f ys)"
  by (induction xs arbitrary: v) (simp_all add: and_then_def split: sum.splits)

lemma core_metadata_with_codecs [simp]: "core_metadata (with_codecs self cs) = core_metadata self"
  by (simp add: core_metadata_def with_codecs_def)

lemma codecs_with_codecs [simp]: "codecs (metadata (with_codecs self cs)) = cs"
  by (simp add: with_codecs_def)


text \<open>
  The reverse order is the one that undoes the encoding when every codec's
  \<^verbatim>\<open>decode\<close> undoes its \<^verbatim>\<open>encode\<close>.
\<close>

lemma decode_codecs_inverts_encode:
  assumes "\<And>c v w. c \<in> set cs \<Longrightarrow> encode E c v core = Inr w \<Longrightarrow> decode E c w core = Inr v"
    and "for_each_codec (\<lambda>codec v. encode E codec v core) cs v = Inr w"
  shows "for_each_codec (\<lambda>codec v. decode E codec v core) (rev cs) w = Inr v"
  using assms
proof (induction cs arbitrary: v)
  case Nil
  then show ?case by simp
next
  case (Cons c cs)
  from Cons.prems(2) obtain u where u: "encode E c v core = Inr u"
    and rest: "for_each_codec (\<lambda>codec v. encode E codec v core) cs u = Inr w"
    by (auto split: sum.splits)
  from Cons.IH [OF _ rest] Cons.prems(1)
  have "for_each_codec (\<lambda>codec v. decode E codec v core) (rev cs) w = Inr u"
    by simp
  moreover from Cons.prems(1) [OF _ u] have "decode E c u core = Inr v"
    by simp
  ultimately show ?case
    by (simp add: for_each_codec_append and_then_def)
qed

section \<open>Arrays, selections and the indexer\<close>

lemma product_prod_list: "product xs = prod_list xs"
proof -
  have "foldl (\<lambda>x y. x * y) a xs = a * prod_list xs" for a :: nat
    by (induction xs arbitrary: a) (simp_all add: mult.assoc)
  from this [of 1] show ?thesis by (simp add: product_def)
qed

lemma product_Nil [simp]: "product [] = 1"
  by (simp add: product_def)

lemma product_Cons [simp]: "product (n # ns) = n * product ns"
  by (simp add: product_prod_list)

lemma length_indices: "length (indices shp) = product shp"
  by (induction shp) (simp_all add: indices_def length_concat comp_def sum_list_triv)

lemma indices_Nil [simp]: "indices [] = [[]]"
  by (simp add: indices_def)

lemma indices_Cons: "indices (n # ns) = concat (map (\<lambda>i. map ((#) i) (indices ns)) [0..<n])"
  by (simp add: indices_def)



lemma concat_blocks:
  "concat (map (\<lambda>i. map (\<lambda>r. i * p + r) [0..<p]) [0..<n]) = [0..<n * p]"
proof (induction n)
  case 0
  then show ?case by simp
next
  case (Suc n)
  have "map (\<lambda>r. n * p + r) [0..<p] = [n * p..<n * p + p]"
    using map_add_upt [of "n * p" p] by (simp add: add.commute)
  moreover have "[0..<n * p + p] = [0..<n * p] @ [n * p..<n * p + p]"
    by (rule upt_add_eq_append) simp
  ultimately show ?case
    using Suc by (simp add: add.commute)
qed

lemma ravel_indices: "map (ravel shp) (indices shp) = [0..<product shp]"
proof (induction shp)
  case Nil
  then show ?case by simp
next
  case (Cons n ns)
  have "map (ravel (n # ns)) (indices (n # ns))
          = concat (map (\<lambda>i. map (\<lambda>r. i * product ns + r) (map (ravel ns) (indices ns))) [0..<n])"
    by (simp add: indices_Cons map_concat comp_def)
  also have "\<dots> = [0..<n * product ns]"
    by (simp add: Cons.IH concat_blocks)
  finally show ?case by simp
qed

lemma ravel_less: "idx \<in> set (indices shp) \<Longrightarrow> ravel shp idx < product shp"
proof -
  assume "idx \<in> set (indices shp)"
  then have "ravel shp idx \<in> set (map (ravel shp) (indices shp))"
    by simp
  then show ?thesis by (simp add: ravel_indices)
qed

lemma indices_nth_ravel:
  assumes "idx \<in> set (indices shp)"
  shows "indices shp ! ravel shp idx = idx"
proof -
  from assms obtain j where j: "j < length (indices shp)" "indices shp ! j = idx"
    by (auto simp: in_set_conv_nth)
  have "ravel shp (indices shp ! j) = map (ravel shp) (indices shp) ! j"
    using j(1) by simp
  also have "\<dots> = j"
    using j(1) by (simp add: ravel_indices length_indices)
  finally show ?thesis using j(2) by simp
qed

lemma at_tabulate: "idx \<in> set (indices shp) \<Longrightarrow> at (tabulate dt shp f) idx = f idx"
  using ravel_less [of idx shp] indices_nth_ravel [of idx shp]
  by (simp add: at_def tabulate_def length_indices)

lemma dtype_tabulate [simp]: "dtype (tabulate dt shp f) = dt"
  and shape_tabulate [simp]: "ndarray.shape (tabulate dt shp f) = shp"
  and length_data_tabulate [simp]: "length (data (tabulate dt shp f)) = product shp"
  by (simp_all add: tabulate_def length_indices)





lemma length_sel_shape [simp]: "length (sel_shape sel) = length sel"
  by (simp add: sel_shape_def)




lemma length_sel_to_array [simp]: "length (sel_to_array sel idx) = min (length sel) (length idx)"
  by (simp add: sel_to_array_def)

lemma length_array_to_sel [simp]: "length (array_to_sel sel idx) = min (length sel) (length idx)"
  by (simp add: array_to_sel_def)







lemma at_setitem_scalar:
  "idx \<in> set (indices (ndarray.shape a)) \<Longrightarrow>
     at (setitem_scalar a sel v) idx = (if in_sel sel idx then v else at a idx)"
  by (simp add: setitem_scalar_def at_tabulate)


lemma at_np_zeros: "idx \<in> set (indices shp) \<Longrightarrow> at (np_zeros shp dt) idx = 0"
  by (simp add: np_zeros_def at_tabulate)

lemma getitem_simps [simp]:
  "dtype (getitem a sel) = dtype a" "ndarray.shape (getitem a sel) = sel_shape sel"
  "length (data (getitem a sel)) = product (sel_shape sel)"
  by (simp_all add: getitem_def)

lemma setitem_simps [simp]:
  "dtype (setitem a sel b) = dtype a" "ndarray.shape (setitem a sel b) = ndarray.shape a"
  "length (data (setitem a sel b)) = product (ndarray.shape a)"
  by (simp_all add: setitem_def)

lemma setitem_scalar_simps [simp]:
  "dtype (setitem_scalar a sel v) = dtype a" "ndarray.shape (setitem_scalar a sel v) = ndarray.shape a"
  "length (data (setitem_scalar a sel v)) = product (ndarray.shape a)"
  by (simp_all add: setitem_scalar_def)

lemma np_full_simps [simp]:
  "dtype (np_full shp dt v) = dt" "ndarray.shape (np_full shp dt v) = shp"
  "length (data (np_full shp dt v)) = product shp"
  by (simp_all add: np_full_def)

lemma np_zeros_simps [simp]:
  "dtype (np_zeros shp dt) = dt" "ndarray.shape (np_zeros shp dt) = shp"
  "length (data (np_zeros shp dt)) = product shp"
  by (simp_all add: np_zeros_def)







subsection \<open>One axis\<close>





subsection \<open>All axes\<close>






subsection \<open>The indexer of a valid selection\<close>




section \<open>Chunk keys are distinct\<close>
















section \<open>Reading chunks\<close>
















section \<open>Writing chunks\<close>














section \<open>An array without codecs meets the contract\<close>


lemma length_int_to_bytes [simp]: "length (int_to_bytes w v) = w"
  by (simp add: int_to_bytes_def)



















lemma fresh_store_ok:
  assumes "\<And>k. st (chunk_key_of self k) = None"
  shows "store_ok E self st"
  using assms by (simp add: store_ok_def stored_content_def)

section \<open>Elided chunks, whole-chunk writes and the value check\<close>







section \<open>The statements on the example array\<close>














end
